theory Spec2Isabelle
  imports Complex_Main
begin

section \<open>Data model\<close>

text \<open>
  The embedding covers the order, stock, payment and shipment operations of
  \<^verbatim>\<open>api/orders/service.py\<close>, \<^verbatim>\<open>api/products/service.py\<close>,
  \<^verbatim>\<open>api/payments/service.py\<close> and \<^verbatim>\<open>api/shipments/service.py\<close>.

  Primary keys (\<^verbatim>\<open>UUID\<close>) are natural numbers. Python's \<^verbatim>\<open>Decimal\<close> is
  modelled by the rationals: sums, differences, products and comparisons are exact.
  A \<^verbatim>\<open>datetime\<close> is a number of seconds.
\<close>

type_synonym uuid = nat
type_synonym decimal = rat
type_synonym datetime = int

text \<open>
  The amounts, quantities and stocks of \<^verbatim>\<open>packages/db/models.py\<close> are
  \<^verbatim>\<open>Numeric(12, 2)\<close> columns, a unit price is \<^verbatim>\<open>Numeric(10, 2)\<close>. A value
  written to such a column is rounded to two decimal places, a tie away from zero
  (the rule of PostgreSQL, the store of \<^verbatim>\<open>packages/db/session.py\<close>), and the store
  refuses it when the rounded value needs more digits than the column has:
  \<open>numeric precision x\<close> is the value the column holds, or \<open>None\<close>.
\<close>

definition numeric_round :: "decimal \<Rightarrow> decimal" where
  "numeric_round x = sgn x * (of_int \<lfloor>\<bar>x\<bar> * 100 + 1 / 2\<rfloor> / 100)"

definition numeric :: "nat \<Rightarrow> decimal \<Rightarrow> decimal option" where
  "numeric precision x =
     (let r = numeric_round x
      in if \<bar>r\<bar> < 10 ^ (precision - 2) then Some r else None)"

text \<open>The enumerations of \<^verbatim>\<open>packages/db/enums.py\<close>.\<close>

datatype ShipmentStatus = PENDING | PACKED | SHIPPED | DELIVERED | CANCELLED

datatype PaymentStatus = NOT_REQUIRED | PENDING | AUTHORIZED | CAPTURED | FAILED | REFUNDED

datatype OrderStatus = DRAFT | PENDING_PAYMENT | PAID | CANCELLED | FULFILLED

text \<open>
  The rows of \<^verbatim>\<open>packages/db/models.py\<close>, with the columns that the modelled
  operations read or write. A row's primary key is its key in the table.
\<close>

record product =
  name :: string
  price_per_unit :: decimal
  stock_quantity :: decimal

text \<open>
  \<^verbatim>\<open>OrderItemBase\<close> of \<^verbatim>\<open>api/orders/models.py\<close> is the request item
  (\<^verbatim>\<open>OrderItemCreate\<close> adds nothing to it); the stored \<^verbatim>\<open>OrderItem\<close> row has the
  same four fields and the two computed amounts.
\<close>

record order_item_base =
  product_id :: uuid
  quantity :: decimal
  unit_price :: decimal
  line_discount :: decimal

record order_item = order_item_base +
  line_subtotal :: decimal
  line_total :: decimal

text \<open>
  \<^verbatim>\<open>OrderCreate\<close>: the two amounts are \<^verbatim>\<open>Optional[Decimal]\<close> with default 0.
\<close>

record order_create =
  customer_id :: uuid
  farmer_id :: uuid
  items :: "order_item_base list"
  shipping_amount :: "decimal option"
  discount_amount :: "decimal option"

text \<open>
  The \<^verbatim>\<open>Order\<close> row together with its \<^verbatim>\<open>order_items\<close> relationship, which the
  order owns (\<^verbatim>\<open>cascade="all, delete-orphan"\<close>, \<^verbatim>\<open>ondelete="CASCADE"\<close>).
\<close>

record order =
  customer_id :: uuid
  farmer_id :: uuid
  status :: OrderStatus
  payment_status :: PaymentStatus
  payment_provider :: "string option"
  payment_reference :: "string option"
  subtotal_amount :: decimal
  shipping_amount :: decimal
  discount_amount :: decimal
  total_amount :: decimal
  currency :: string
  order_items :: "order_item list"

record shipment =
  order_id :: uuid
  status :: ShipmentStatus
  shipped_at :: "datetime option"
  delivered_at :: "datetime option"

record store =
  products :: "uuid \<rightharpoonup> product"
  orders :: "uuid \<rightharpoonup> order"
  shipments :: "uuid \<rightharpoonup> shipment"

text \<open>
  An \<^verbatim>\<open>AsyncSession\<close>: the committed store, and the rows as the session's
  objects hold them. Reads and writes go to \<open>pending\<close>; \<^verbatim>\<open>db.commit()\<close>
  publishes it and \<^verbatim>\<open>db.rollback()\<close> discards it. An operation therefore starts
  from the store \<open>pending\<close> of the session it is given, which for a new session
  is the committed store.

  \<open>commit\<close> publishes the rows as they are. That is what the store does with the
  sums of stored quantities that \<^verbatim>\<open>cancel_order\<close> and \<^verbatim>\<open>delete_order\<close> write, and
  with the payment and shipment fields. \<^verbatim>\<open>create_order\<close> and \<^verbatim>\<open>update_stock\<close>
  write values that a request brings; they pass them through the columns first (see
  there).
\<close>

record session =
  committed :: store
  pending :: store

definition commit :: "session \<Rightarrow> session" where
  "commit s = s\<lparr>committed := pending s\<rparr>"

definition rollback :: "session \<Rightarrow> session" where
  "rollback s = s\<lparr>pending := committed s\<rparr>"

text \<open>
  \<^verbatim>\<open>get_async_db\<close> of \<^verbatim>\<open>packages/db/session.py\<close>: every request is served with a
  new session on the store.
\<close>

definition get_async_db :: "store \<Rightarrow> session" where
  "get_async_db st = \<lparr>committed = st, pending = st\<rparr>"

text \<open>
  The \<^verbatim>\<open>ValueError\<close>s the order and product services raise, one constructor for
  each message, and \<open>StoreError\<close> for the exception with which the store refuses a
  row.
\<close>

datatype error =
    ProductNotFound uuid
  | InsufficientStockFor string
  | InsufficientStock
  | CannotCancel OrderStatus
  | CanOnlyDeleteDraft
  | StoreError

text \<open>
  The rows as the store holds them once written. An order line must also satisfy the
  table's constraint \<^verbatim>\<open>check_quantity_positive\<close> on the quantity it holds.
\<close>

definition stored_product :: "product \<Rightarrow> product option" where
  "stored_product p =
     (case numeric 12 (stock_quantity p) of
        None \<Rightarrow> None
      | Some q \<Rightarrow> Some (p\<lparr>stock_quantity := q\<rparr>))"

definition stored_order_item :: "order_item \<Rightarrow> order_item option" where
  "stored_order_item l =
     (case numeric 12 (quantity l) of None \<Rightarrow> None | Some q \<Rightarrow>
      case numeric 10 (unit_price l) of None \<Rightarrow> None | Some p \<Rightarrow>
      case numeric 12 (line_subtotal l) of None \<Rightarrow> None | Some s \<Rightarrow>
      case numeric 12 (line_discount l) of None \<Rightarrow> None | Some d \<Rightarrow>
      case numeric 12 (line_total l) of None \<Rightarrow> None | Some t \<Rightarrow>
        if 0 < q
        then Some \<lparr>product_id = product_id l, quantity = q, unit_price = p,
                   line_discount = d, line_subtotal = s, line_total = t\<rparr>
        else None)"

definition stored_order :: "order \<Rightarrow> order option" where
  "stored_order ord =
     (case numeric 12 (subtotal_amount ord) of None \<Rightarrow> None | Some sub \<Rightarrow>
      case numeric 12 (shipping_amount ord) of None \<Rightarrow> None | Some ship \<Rightarrow>
      case numeric 12 (discount_amount ord) of None \<Rightarrow> None | Some disc \<Rightarrow>
      case numeric 12 (total_amount ord) of None \<Rightarrow> None | Some tot \<Rightarrow>
      case those (map stored_order_item (order_items ord)) of None \<Rightarrow> None | Some ls \<Rightarrow>
        Some (ord\<lparr>subtotal_amount := sub, shipping_amount := ship,
                  discount_amount := disc, total_amount := tot, order_items := ls\<rparr>))"

section \<open>Orders\<close>

text \<open>\<^verbatim>\<open>OrderService.get_order\<close>: the order with its items, or \<^verbatim>\<open>None\<close>.\<close>

definition get_order :: "session \<Rightarrow> uuid \<Rightarrow> order option" where
  "get_order db oid = orders (pending db) oid"

text \<open>
  \<^verbatim>\<open>OrderModel(**order_dict)\<close> once flushed: the request's fields, and the column
  defaults for the rest (also for an amount given as \<^verbatim>\<open>None\<close>).
\<close>

definition new_order :: "order_create \<Rightarrow> order" where
  "new_order order_data =
     \<lparr>customer_id = order_create.customer_id order_data,
      farmer_id = order_create.farmer_id order_data,
      status = DRAFT,
      payment_status = PaymentStatus.PENDING,
      payment_provider = None,
      payment_reference = None,
      subtotal_amount = 0,
      shipping_amount =
        (case order_create.shipping_amount order_data of None \<Rightarrow> 0 | Some a \<Rightarrow> a),
      discount_amount =
        (case order_create.discount_amount order_data of None \<Rightarrow> 0 | Some a \<Rightarrow> a),
      total_amount = 0,
      currency = ''ILS'',
      order_items = []\<rparr>"

text \<open>Writing the row of an order that the session holds; no row, no change.\<close>

definition update_order_row :: "uuid \<Rightarrow> (order \<Rightarrow> order) \<Rightarrow> store \<Rightarrow> store" where
  "update_order_row oid f st =
     (case orders st oid of
        None \<Rightarrow> st
      | Some ord \<Rightarrow> st\<lparr>orders := (orders st)(oid \<mapsto> f ord)\<rparr>)"

text \<open>
  The loop of \<^verbatim>\<open>create_order\<close> over \<^verbatim>\<open>order_data.items\<close>, on the transaction's
  store, with the running \<^verbatim>\<open>subtotal\<close>. A \<^verbatim>\<open>raise\<close> leaves the loop with the store
  as it is at that moment.
\<close>

fun add_items ::
  "uuid \<Rightarrow> order_item_base list \<Rightarrow> decimal \<Rightarrow> store \<Rightarrow> store \<times> (error + decimal)" where
  "add_items oid [] subtotal st = (st, Inr subtotal)"
| "add_items oid (item # rest) subtotal st =
     (case products st (product_id item) of
        None \<Rightarrow> (st, Inl (ProductNotFound (product_id item)))
      | Some product \<Rightarrow>
          if stock_quantity product < quantity item
          then (st, Inl (InsufficientStockFor (name product)))
          else
            let line_subtotal = quantity item * unit_price item;
                line_total = line_subtotal - line_discount item;
                order_item =
                  \<lparr>product_id = product_id item,
                   quantity = quantity item,
                   unit_price = unit_price item,
                   line_discount = line_discount item,
                   line_subtotal = line_subtotal,
                   line_total = line_total\<rparr>;
                st1 = update_order_row oid
                        (\<lambda>ord. ord\<lparr>order_items := order_items ord @ [order_item]\<rparr>) st;
                st2 = st1\<lparr>products := (products st1)(product_id item \<mapsto>
                        product\<lparr>stock_quantity := stock_quantity product - quantity item\<rparr>)\<rparr>
            in add_items oid rest (subtotal + line_total) st2)"

text \<open>
  What \<^verbatim>\<open>db.commit()\<close> writes at the end of \<^verbatim>\<open>create_order\<close>: the row of the
  new order with its lines, and the rows of the products whose stock the loop has
  changed, each as the store holds it. \<open>st\<close> is the store as the session's objects
  hold it, \<open>target\<close> the store being written. The result is \<open>None\<close> when the store
  refuses a row. (The store sees some of these rows earlier, at \<^verbatim>\<open>db.flush()\<close> and
  before a query; a refusal is an exception inside the same \<^verbatim>\<open>try\<close> block at
  whichever moment, and the model has them all at the commit.)
\<close>

definition write_order :: "uuid \<Rightarrow> store \<Rightarrow> store \<Rightarrow> store option" where
  "write_order oid st target =
     (case orders st oid of
        None \<Rightarrow> Some target
      | Some ord \<Rightarrow>
          (case stored_order ord of
             None \<Rightarrow> None
           | Some row \<Rightarrow> Some (target\<lparr>orders := (orders target)(oid \<mapsto> row)\<rparr>)))"

fun write_products :: "uuid list \<Rightarrow> store \<Rightarrow> store \<Rightarrow> store option" where
  "write_products [] st target = Some target"
| "write_products (pid # pids) st target =
     (case products st pid of
        None \<Rightarrow> write_products pids st target
      | Some p \<Rightarrow>
          (case stored_product p of
             None \<Rightarrow> None
           | Some row \<Rightarrow>
               write_products pids st (target\<lparr>products := (products target)(pid \<mapsto> row)\<rparr>)))"

text \<open>
  \<^verbatim>\<open>db.refresh(db_order)\<close>: the session's order takes the columns of its stored
  row. The sessions are made with \<^verbatim>\<open>expire_on_commit=False\<close>, so the other objects of
  the session, the order's lines among them, keep the values they were given.
\<close>

definition refresh_order :: "uuid \<Rightarrow> session \<Rightarrow> session" where
  "refresh_order oid db =
     (case orders (committed db) oid of
        None \<Rightarrow> db
      | Some row \<Rightarrow>
          db\<lparr>pending := update_order_row oid
                           (\<lambda>ord. row\<lparr>order_items := order_items ord\<rparr>) (pending db)\<rparr>)"

text \<open>
  \<^verbatim>\<open>OrderService.create_order\<close>. \<open>oid\<close> is the primary key the store generates
  for the new row at \<^verbatim>\<open>db.flush()\<close>.
\<close>

definition create_order ::
  "session \<Rightarrow> uuid \<Rightarrow> order_create \<Rightarrow> session \<times> (error + order option)" where
  "create_order db oid order_data =
     (let db_order = new_order order_data;
          db1 = db\<lparr>pending := (pending db)\<lparr>orders := (orders (pending db))(oid \<mapsto> db_order)\<rparr>\<rparr>
      in case add_items oid (items order_data) 0 (pending db1) of
           (st, Inl e) \<Rightarrow> (rollback (db1\<lparr>pending := st\<rparr>), Inl e)
         | (st, Inr subtotal) \<Rightarrow>
             let st' = update_order_row oid
                         (\<lambda>ord. ord\<lparr>subtotal_amount := subtotal,
                                    total_amount := subtotal + shipping_amount ord
                                                    - discount_amount ord\<rparr>) st;
                 db2 = db1\<lparr>pending := st'\<rparr>
             in case write_order oid st' st' of
                  None \<Rightarrow> (rollback db2, Inl StoreError)
                | Some target \<Rightarrow>
                    (case write_products (map product_id (items order_data)) st' target of
                       None \<Rightarrow> (rollback db2, Inl StoreError)
                     | Some written \<Rightarrow>
                         let db3 = refresh_order oid (db2\<lparr>committed := written\<rparr>)
                         in (db3, Inr (get_order db3 oid))))"

text \<open>
  The loop of \<^verbatim>\<open>cancel_order\<close> and of \<^verbatim>\<open>delete_order\<close> that gives the items'
  quantities back; an item whose product is gone is skipped.
\<close>

fun restore_stock :: "order_item list \<Rightarrow> store \<Rightarrow> store" where
  "restore_stock [] st = st"
| "restore_stock (order_item # rest) st =
     (case products st (product_id order_item) of
        None \<Rightarrow> restore_stock rest st
      | Some product \<Rightarrow>
          restore_stock rest
            (st\<lparr>products := (products st)(product_id order_item \<mapsto>
               product\<lparr>stock_quantity := stock_quantity product + quantity order_item\<rparr>)\<rparr>))"

text \<open>
  \<^verbatim>\<open>OrderService.cancel_order\<close>. The status check raises outside the
  \<^verbatim>\<open>try\<close> block, so the session is left as it is.
\<close>

definition cancel_order :: "session \<Rightarrow> uuid \<Rightarrow> session \<times> (error + order option)" where
  "cancel_order db oid =
     (case get_order db oid of
        None \<Rightarrow> (db, Inr None)
      | Some ord \<Rightarrow>
          if order.status ord \<in> {OrderStatus.CANCELLED, FULFILLED}
          then (db, Inl (CannotCancel (order.status ord)))
          else
            let st = restore_stock (order_items ord) (pending db);
                st' = update_order_row oid
                        (\<lambda>ord. ord\<lparr>order.status := OrderStatus.CANCELLED\<rparr>) st;
                db' = commit (db\<lparr>pending := st'\<rparr>)
            in (db', Inr (get_order db' oid)))"

text \<open>\<^verbatim>\<open>OrderService.delete_order\<close>.\<close>

definition delete_order :: "session \<Rightarrow> uuid \<Rightarrow> session \<times> (error + bool)" where
  "delete_order db oid =
     (case get_order db oid of
        None \<Rightarrow> (db, Inr False)
      | Some ord \<Rightarrow>
          if order.status ord \<noteq> DRAFT
          then (db, Inl CanOnlyDeleteDraft)
          else
            let st = restore_stock (order_items ord) (pending db);
                st' = st\<lparr>orders := (orders st)(oid := None)\<rparr>
            in (commit (db\<lparr>pending := st'\<rparr>), Inr True))"

section \<open>Stock\<close>

text \<open>
  \<^verbatim>\<open>ProductService.update_stock\<close>. The \<^verbatim>\<open>UPDATE\<close> writes the new quantity to
  the stock column, and \<^verbatim>\<open>db.refresh(product)\<close> reads the product back; a quantity
  the column cannot hold makes the statement raise, and nothing is written.
\<close>

definition update_stock ::
  "session \<Rightarrow> uuid \<Rightarrow> decimal \<Rightarrow> session \<times> (error + product option)" where
  "update_stock db pid quantity_change =
     (case products (pending db) pid of
        None \<Rightarrow> (db, Inr None)
      | Some product \<Rightarrow>
          let new_quantity = stock_quantity product + quantity_change
          in if new_quantity < 0
             then (db, Inl InsufficientStock)
             else
               (case stored_product (product\<lparr>stock_quantity := new_quantity\<rparr>) of
                  None \<Rightarrow> (db, Inl StoreError)
                | Some row \<Rightarrow>
                    let st = (pending db)\<lparr>products := (products (pending db))(pid \<mapsto> row)\<rparr>;
                        db' = commit (db\<lparr>pending := st\<rparr>)
                    in (db', Inr (products (pending db') pid))))"

section \<open>Payments\<close>

text \<open>
  The payment service answers with a dictionary: \<^verbatim>\<open>{"success": False, "error": ...}\<close>,
  one constructor for each message, or the fields of a success.
\<close>

datatype payment_error =
    OrderNotFound
  | OrderCannotBePaid OrderStatus
  | OrderAlreadyPaid
  | PaymentCreationFailed string
  | NotPaidWithPayPal
  | PaymentNotCaptured
  | NoTransactionReference
  | RefundFailed string

text \<open>
  What \<^verbatim>\<open>paypal_provider.create_payment\<close> and \<^verbatim>\<open>paypal_provider.refund_payment\<close>
  return: the provider catches its own exceptions and reports them as a failure.
  The provider reaches an external service, so it is a parameter of the two
  operations. \<^verbatim>\<open>create_payment\<close> is given the amount, the currency, the two URLs and
  the order's id (its description is derived from the id); \<^verbatim>\<open>refund_payment\<close> the
  payment reference and the amount.
\<close>

datatype create_payment_result =
    PaymentCreated string "string option"
  | PaymentError string

datatype refund_payment_result =
    RefundCreated string string
  | RefundError string

type_synonym create_payment =
  "decimal \<Rightarrow> string \<Rightarrow> string option \<Rightarrow> string option \<Rightarrow> uuid \<Rightarrow> create_payment_result"

type_synonym refund_payment = "string \<Rightarrow> decimal option \<Rightarrow> refund_payment_result"

record payment_created =
  order_id :: uuid
  payment_id :: string
  approval_url :: "string option"
  amount :: decimal
  currency :: string

record payment_refunded =
  order_id :: uuid
  refund_id :: string
  refund_state :: string
  refund_amount :: decimal
  currency :: string

text \<open>
  \<^verbatim>\<open>PaymentService.create_paypal_payment\<close>. Nothing in the body raises in this
  model, so the \<^verbatim>\<open>except\<close> branch (a failing store) has no counterpart. The
  \<open>amount\<close> of the response is the order's total; the code converts it with
  \<^verbatim>\<open>float()\<close>, which the model leaves out.
\<close>

definition create_paypal_payment ::
  "create_payment \<Rightarrow> session \<Rightarrow> uuid \<Rightarrow> string option \<Rightarrow> string option \<Rightarrow>
   session \<times> (payment_error + payment_created)" where
  "create_paypal_payment provider db oid return_url cancel_url =
     (case orders (pending db) oid of
        None \<Rightarrow> (db, Inl OrderNotFound)
      | Some ord \<Rightarrow>
          if order.status ord \<notin> {DRAFT, PENDING_PAYMENT}
          then (db, Inl (OrderCannotBePaid (order.status ord)))
          else if payment_status ord = CAPTURED
          then (db, Inl OrderAlreadyPaid)
          else
            (case provider (total_amount ord) (order.currency ord) return_url cancel_url oid of
               PaymentError e \<Rightarrow> (db, Inl (PaymentCreationFailed e))
             | PaymentCreated pay_id url \<Rightarrow>
                 let st = update_order_row oid
                            (\<lambda>ord. ord\<lparr>payment_provider := Some ''PAYPAL'',
                                       payment_reference := Some pay_id,
                                       payment_status := PaymentStatus.PENDING,
                                       order.status := PENDING_PAYMENT\<rparr>) (pending db)
                 in (commit (db\<lparr>pending := st\<rparr>),
                     Inr \<lparr>payment_created.order_id = oid,
                          payment_id = pay_id,
                          approval_url = url,
                          amount = total_amount ord,
                          payment_created.currency = order.currency ord\<rparr>)))"

text \<open>
  \<^verbatim>\<open>PaymentService.refund_paypal_payment\<close>. \<open>amount'\<close> is the parameter
  \<^verbatim>\<open>amount\<close>, an \<^verbatim>\<open>Optional[Decimal]\<close>; Python takes \<^verbatim>\<open>None\<close> and a zero \<^verbatim>\<open>Decimal\<close> as false,
  and \<^verbatim>\<open>None\<close> and the empty string likewise for the payment reference.
\<close>

definition refund_paypal_payment ::
  "refund_payment \<Rightarrow> session \<Rightarrow> uuid \<Rightarrow> decimal option \<Rightarrow>
   session \<times> (payment_error + payment_refunded)" where
  "refund_paypal_payment provider db oid amount' =
     (case orders (pending db) oid of
        None \<Rightarrow> (db, Inl OrderNotFound)
      | Some ord \<Rightarrow>
          if payment_provider ord \<noteq> Some ''PAYPAL''
          then (db, Inl NotPaidWithPayPal)
          else if payment_status ord \<noteq> CAPTURED
          then (db, Inl PaymentNotCaptured)
          else
            (case payment_reference ord of
               None \<Rightarrow> (db, Inl NoTransactionReference)
             | Some reference \<Rightarrow>
                 if reference = []
                 then (db, Inl NoTransactionReference)
                 else
                   (case provider reference amount' of
                      RefundError e \<Rightarrow> (db, Inl (RefundFailed e))
                    | RefundCreated ref_id ref_state \<Rightarrow>
                        let new_payment_status =
                              (case amount' of
                                 None \<Rightarrow> REFUNDED
                               | Some a \<Rightarrow>
                                   if a \<noteq> 0 \<and> a < total_amount ord
                                   then CAPTURED else REFUNDED);
                            st = update_order_row oid
                                   (\<lambda>ord. ord\<lparr>payment_status := new_payment_status\<rparr>)
                                   (pending db)
                        in (commit (db\<lparr>pending := st\<rparr>),
                            Inr \<lparr>payment_refunded.order_id = oid,
                                 refund_id = ref_id,
                                 refund_state = ref_state,
                                 refund_amount =
                                   (case amount' of
                                      None \<Rightarrow> total_amount ord
                                    | Some a \<Rightarrow> if a \<noteq> 0 then a else total_amount ord),
                                 payment_refunded.currency = order.currency ord\<rparr>))))"

section \<open>Shipments\<close>

text \<open>
  \<^verbatim>\<open>ShipmentService.update_shipment_status\<close>. \<open>now\<close> is what
  \<^verbatim>\<open>datetime.now(UTC)\<close> reads from the clock.
\<close>

definition update_shipment_status ::
  "session \<Rightarrow> uuid \<Rightarrow> ShipmentStatus \<Rightarrow> bool \<Rightarrow> datetime \<Rightarrow> session \<times> shipment option" where
  "update_shipment_status db sid new_status update_timestamps now =
     (case shipments (pending db) sid of
        None \<Rightarrow> (db, None)
      | Some shipment \<Rightarrow>
          let row = shipment\<lparr>shipment.status := new_status\<rparr>;
              row' =
                (if update_timestamps then
                   (if new_status = SHIPPED \<and> shipped_at shipment = None
                    then row\<lparr>shipped_at := Some now\<rparr>
                    else if new_status = DELIVERED \<and> delivered_at shipment = None
                    then row\<lparr>delivered_at := Some now\<rparr>
                    else row)
                 else row);
              st = (pending db)\<lparr>shipments := (shipments (pending db))(sid \<mapsto> row')\<rparr>;
              db' = commit (db\<lparr>pending := st\<rparr>)
          in (db', shipments (pending db') sid))"

section \<open>Specification functions\<close>

text \<open>
  The total quantity that a list of items asks of one product, in terms of which the
  effect of reserving and of restoring stock is stated.
\<close>

definition ordered_quantity :: "uuid \<Rightarrow> 'a order_item_base_scheme list \<Rightarrow> decimal" where
  "ordered_quantity pid its = (\<Sum>i\<leftarrow>filter (\<lambda>i. product_id i = pid) its. quantity i)"

text \<open>
  The row that one iteration of the loop of \<^verbatim>\<open>create_order\<close> builds from a request
  item, and the store after that iteration; the proofs unfold the loop with them.
\<close>

definition as_order_item :: "order_item_base \<Rightarrow> order_item" where
  "as_order_item item =
     \<lparr>product_id = product_id item, quantity = quantity item,
      unit_price = unit_price item, line_discount = line_discount item,
      line_subtotal = quantity item * unit_price item,
      line_total = quantity item * unit_price item - line_discount item\<rparr>"

definition item_added :: "uuid \<Rightarrow> order_item_base \<Rightarrow> product \<Rightarrow> store \<Rightarrow> store" where
  "item_added oid item p st =
     (update_order_row oid (\<lambda>ord. ord\<lparr>order_items := order_items ord @ [as_order_item item]\<rparr>) st)
       \<lparr>products := (products st)(product_id item \<mapsto>
           p\<lparr>stock_quantity := stock_quantity p - quantity item\<rparr>)\<rparr>"

text \<open>A value that a two-place column holds as it is.\<close>

definition two_places :: "decimal \<Rightarrow> bool" where
  "two_places x \<longleftrightarrow> numeric_round x = x"

text \<open>
  The invariants of the store: no product has a negative stock, and every stored
  order line has a positive quantity (the table's \<^verbatim>\<open>check_quantity_positive\<close>
  constraint). A session is consistent when both hold of its committed store and of
  the store its transaction sees.
\<close>

definition stock_nonneg :: "store \<Rightarrow> bool" where
  "stock_nonneg st \<longleftrightarrow> (\<forall>pid p. products st pid = Some p \<longrightarrow> 0 \<le> stock_quantity p)"

definition quantities_positive :: "store \<Rightarrow> bool" where
  "quantities_positive st \<longleftrightarrow>
     (\<forall>oid ord. orders st oid = Some ord \<longrightarrow> (\<forall>i\<in>set (order_items ord). 0 < quantity i))"

definition consistent :: "session \<Rightarrow> bool" where
  "consistent db \<longleftrightarrow>
     stock_nonneg (committed db) \<and> quantities_positive (committed db) \<and>
     stock_nonneg (pending db) \<and> quantities_positive (pending db)"

section \<open>Example data\<close>

text \<open>
  One product with 5 units in stock at 10.00 the unit, in a session with
  nothing uncommitted, and a request for \<open>q\<close> units of it at a unit price of
  \<open>price\<close>, with a line discount of 0.50 and 15.00 for shipping.
\<close>

definition demo_store :: store where
  "demo_store =
     \<lparr>products = [1 \<mapsto> \<lparr>name = ''tomatoes'', price_per_unit = 10, stock_quantity = 5\<rparr>],
      orders = Map.empty, shipments = Map.empty\<rparr>"

definition demo_db :: session where
  "demo_db = \<lparr>committed = demo_store, pending = demo_store\<rparr>"

definition demo_request :: "decimal \<Rightarrow> decimal \<Rightarrow> order_create" where
  "demo_request q price =
     \<lparr>order_create.customer_id = 3, order_create.farmer_id = 4,
      items = [\<lparr>product_id = 1, quantity = q, unit_price = price, line_discount = 1/2\<rparr>],
      order_create.shipping_amount = Some 15, order_create.discount_amount = None\<rparr>"

text \<open>
  An order for 3 units of that product, 30.00 in total, in a given status, and a
  session whose store holds it under the key 7; the same order once paid through
  PayPal.
\<close>

definition demo_order :: "OrderStatus \<Rightarrow> order" where
  "demo_order st =
     \<lparr>customer_id = 3, farmer_id = 4, order.status = st,
      payment_status = PaymentStatus.PENDING, payment_provider = None,
      payment_reference = None, subtotal_amount = 30, shipping_amount = 0,
      discount_amount = 0, total_amount = 30, order.currency = ''ILS'',
      order_items = [\<lparr>product_id = 1, quantity = 3, unit_price = 10, line_discount = 0,
                       line_subtotal = 30, line_total = 30\<rparr>]\<rparr>"

definition demo_db_with :: "order \<Rightarrow> session" where
  "demo_db_with ord =
     \<lparr>committed = demo_store\<lparr>orders := [7 \<mapsto> ord]\<rparr>,
      pending = demo_store\<lparr>orders := [7 \<mapsto> ord]\<rparr>\<rparr>"

definition demo_paid_order :: order where
  "demo_paid_order =
     (demo_order PAID)\<lparr>payment_status := CAPTURED, payment_provider := Some ''PAYPAL'',
                        payment_reference := Some ''SALE-1''\<rparr>"

text \<open>
  A provider that accepts every payment, one that fails, and one that accepts every
  refund.
\<close>

definition demo_provider_up :: create_payment where
  "demo_provider_up amt cur return_url cancel_url oid =
     PaymentCreated ''PAY-1'' (Some ''https://paypal.example/approve'')"

definition demo_provider_down :: create_payment where
  "demo_provider_down amt cur return_url cancel_url oid = PaymentError ''timeout''"

definition demo_refund_provider :: refund_payment where
  "demo_refund_provider reference amt = RefundCreated ''REF-1'' ''completed''"

text \<open>A packed shipment of order 7, under the key 9.\<close>

definition demo_shipment :: shipment where
  "demo_shipment =
     \<lparr>shipment.order_id = 7, shipment.status = PACKED, shipped_at = None, delivered_at = None\<rparr>"

definition demo_shipping_db :: session where
  "demo_shipping_db =
     \<lparr>committed = demo_store\<lparr>shipments := [9 \<mapsto> demo_shipment]\<rparr>,
      pending = demo_store\<lparr>shipments := [9 \<mapsto> demo_shipment]\<rparr>\<rparr>"

section \<open>Stock movements and the order they build\<close>

lemma ordered_quantity_Nil [simp]: "ordered_quantity pid [] = 0"
  by (simp add: ordered_quantity_def)

lemma ordered_quantity_Cons [simp]:
  "ordered_quantity pid (i # its) =
     (if product_id i = pid then quantity i else 0) + ordered_quantity pid its"
  by (simp add: ordered_quantity_def)

lemma ordered_quantity_cong:
  "map product_id xs = map product_id ys \<Longrightarrow> map quantity xs = map quantity ys \<Longrightarrow>
   ordered_quantity pid xs = ordered_quantity pid ys"
proof (induction xs arbitrary: ys)
  case Nil
  then show ?case by simp
next
  case (Cons x xs)
  then obtain y ys' where "ys = y # ys'" by (cases ys) auto
  with Cons show ?case by auto
qed

lemma ordered_quantity_as_order_item [simp]:
  "ordered_quantity pid (map as_order_item its) = ordered_quantity pid its"
  by (induction its) (simp_all add: as_order_item_def)

lemma update_order_row_products [simp]: "products (update_order_row oid f st) = products st"
  by (simp add: update_order_row_def split: option.splits)

lemma update_order_row_shipments [simp]: "shipments (update_order_row oid f st) = shipments st"
  by (simp add: update_order_row_def split: option.splits)

lemma update_order_row_orders:
  "orders (update_order_row oid f st) =
     (case orders st oid of None \<Rightarrow> orders st | Some ord \<Rightarrow> (orders st)(oid \<mapsto> f ord))"
  by (simp add: update_order_row_def split: option.splits)

lemma restore_stock_orders [simp]: "orders (restore_stock its st) = orders st"
  by (induction its arbitrary: st) (simp_all split: option.splits)

lemma restore_stock_shipments [simp]: "shipments (restore_stock its st) = shipments st"
  by (induction its arbitrary: st) (simp_all split: option.splits)

lemma restore_stock_products:
  "products (restore_stock its st) pid =
     map_option (\<lambda>p. p\<lparr>stock_quantity := stock_quantity p + ordered_quantity pid its\<rparr>)
       (products st pid)"
proof (induction its arbitrary: st)
  case Nil
  show ?case by (simp add: option.map_ident)
next
  case (Cons i its)
  show ?case
  proof (cases "products st (product_id i)")
    case None
    then show ?thesis using Cons.IH [of st] by (cases "product_id i = pid") auto
  next
    case (Some p)
    then show ?thesis
      by (cases "product_id i = pid") (simp_all add: Cons.IH add.assoc)
  qed
qed

lemma add_items_Cons:
  "add_items oid (item # rest) sub st =
     (case products st (product_id item) of
        None \<Rightarrow> (st, Inl (ProductNotFound (product_id item)))
      | Some p \<Rightarrow>
          if stock_quantity p < quantity item then (st, Inl (InsufficientStockFor (name p)))
          else add_items oid rest (sub + (quantity item * unit_price item - line_discount item))
                 (item_added oid item p st))"
  by (simp add: item_added_def as_order_item_def Let_def split: option.splits)

declare add_items.simps(2) [simp del]

lemma item_added_products:
  "products (item_added oid item p st) =
     (products st)(product_id item \<mapsto> p\<lparr>stock_quantity := stock_quantity p - quantity item\<rparr>)"
  by (simp add: item_added_def)

lemma item_added_shipments [simp]: "shipments (item_added oid item p st) = shipments st"
  by (simp add: item_added_def)

lemma item_added_orders:
  "orders (item_added oid item p st) =
     (case orders st oid of None \<Rightarrow> orders st
      | Some ord \<Rightarrow> (orders st)(oid \<mapsto> ord\<lparr>order_items := order_items ord @ [as_order_item item]\<rparr>))"
  by (simp add: item_added_def update_order_row_orders)

lemma add_items_shipments:
  "add_items oid its sub st = (st', r) \<Longrightarrow> shipments st' = shipments st"
proof (induction its arbitrary: sub st)
  case Nil
  then show ?case by simp
next
  case (Cons item rest)
  from Cons.prems show ?case
    by (auto simp: add_items_Cons split: option.splits if_splits dest: Cons.IH)
qed

lemma add_items_products:
  "add_items oid its sub st = (st', Inr sub') \<Longrightarrow>
   products st' pid =
     map_option (\<lambda>p. p\<lparr>stock_quantity := stock_quantity p - ordered_quantity pid its\<rparr>)
       (products st pid)"
proof (induction its arbitrary: sub st)
  case Nil
  then show ?case by (simp add: option.map_ident)
next
  case (Cons item rest)
  from Cons.prems obtain p where
    p: "products st (product_id item) = Some p" and
    rest: "add_items oid rest (sub + (quantity item * unit_price item - line_discount item))
             (item_added oid item p st) = (st', Inr sub')"
    by (auto simp: add_items_Cons split: option.splits if_splits)
  from Cons.IH [OF rest] p show ?case
    by (cases "product_id item = pid") (simp_all add: item_added_products algebra_simps)
qed

lemma add_items_subtotal:
  "add_items oid its sub st = (st', Inr sub') \<Longrightarrow>
   sub' = sub + (\<Sum>i\<leftarrow>its. quantity i * unit_price i - line_discount i)"
proof (induction its arbitrary: sub st)
  case Nil
  then show ?case by simp
next
  case (Cons item rest)
  from Cons.prems obtain p where
    rest: "add_items oid rest (sub + (quantity item * unit_price item - line_discount item))
             (item_added oid item p st) = (st', Inr sub')"
    by (auto simp: add_items_Cons split: option.splits if_splits)
  from Cons.IH [OF rest] show ?case by simp
qed

lemma add_items_orders:
  "add_items oid its sub st = (st', Inr sub') \<Longrightarrow> orders st oid = Some ord \<Longrightarrow>
   orders st' = (orders st)(oid \<mapsto> ord\<lparr>order_items := order_items ord @ map as_order_item its\<rparr>)"
proof (induction its arbitrary: sub st ord)
  case Nil
  then show ?case by auto
next
  case (Cons item rest)
  from Cons.prems obtain p where
    rest: "add_items oid rest (sub + (quantity item * unit_price item - line_discount item))
             (item_added oid item p st) = (st', Inr sub')"
    by (auto simp: add_items_Cons split: option.splits if_splits)
  have "orders (item_added oid item p st) oid =
          Some (ord\<lparr>order_items := order_items ord @ [as_order_item item]\<rparr>)"
    using Cons.prems(2) by (simp add: item_added_orders)
  from Cons.IH [OF rest this] Cons.prems(2) show ?case
    by (auto simp: item_added_orders intro!: ext)
qed


section \<open>Rounding to the column\<close>

lemma floor_rat_numeral:
  "\<lfloor>numeral a / numeral b :: rat\<rfloor> = numeral a div numeral b"
  using floor_divide_of_int_eq [of "numeral a" "numeral b", where ?'a = rat] by simp

lemma numeric_round_nonneg: "0 \<le> x \<Longrightarrow> 0 \<le> numeric_round x"
  by (simp add: numeric_round_def sgn_if)

lemma numeric_round_of_int: "numeric_round (of_int n / 100) = of_int n / 100"
proof -
  have a: "\<bar>of_int n / 100 :: rat\<bar> * 100 + 1 / 2 = of_int \<bar>n\<bar> + 1 / 2"
    by (simp add: abs_divide)
  have b: "\<lfloor>of_int \<bar>n\<bar> + (1 / 2 :: rat)\<rfloor> = \<bar>n\<bar>"
    by (rule floor_unique) simp_all
  have "numeric_round (of_int n / 100) = sgn (of_int n / 100 :: rat) * (of_int \<bar>n\<bar> / 100)"
    unfolding numeric_round_def a b ..
  also have "\<dots> = of_int n / 100"
    by (cases "n = 0"; cases "0 < n") (simp_all add: sgn_if)
  finally show ?thesis .
qed

lemma two_places_iff: "two_places x \<longleftrightarrow> (\<exists>n::int. x = of_int n / 100)"
  unfolding two_places_def
proof
  assume h: "numeric_round x = x"
  let ?k = "\<lfloor>\<bar>x\<bar> * 100 + 1 / 2\<rfloor>"
  have "x = of_int (if x = 0 then 0 else if 0 < x then ?k else - ?k) / 100"
    using h by (auto simp: numeric_round_def sgn_if split: if_splits)
  then show "\<exists>n::int. x = of_int n / 100" by blast
next
  assume "\<exists>n::int. x = of_int n / 100"
  then obtain n :: int where "x = of_int n / 100" by blast
  then show "numeric_round x = x" by (simp only: numeric_round_of_int)
qed

lemma two_places_0 [simp]: "two_places 0"
  by (simp add: two_places_def numeric_round_def)

lemma two_places_add: "two_places x \<Longrightarrow> two_places y \<Longrightarrow> two_places (x + y)"
  unfolding two_places_iff by (metis add_divide_distrib of_int_add)

lemma two_places_diff: "two_places x \<Longrightarrow> two_places y \<Longrightarrow> two_places (x - y)"
  unfolding two_places_iff by (metis diff_divide_distrib of_int_diff)


lemma two_places_numeric_round [simp]: "two_places (numeric_round x)"
proof -
  have "\<exists>n::int. numeric_round x = of_int n / 100"
    by (rule exI [of _ "(if x = 0 then 0 else if 0 < x then 1 else - 1) * \<lfloor>\<bar>x\<bar> * 100 + 1 / 2\<rfloor>"])
       (simp add: numeric_round_def sgn_if)
  then show ?thesis by (simp add: two_places_iff)
qed

lemma two_places_ordered_quantity:
  "\<forall>i\<in>set its. two_places (quantity i) \<Longrightarrow> two_places (ordered_quantity pid its)"
  by (induction its) (simp_all add: two_places_add)

lemma numeric_Some:
  "numeric precision x = Some r \<longleftrightarrow>
     r = numeric_round x \<and> \<bar>numeric_round x\<bar> < 10 ^ (precision - 2)"
  by (auto simp: numeric_def Let_def)

lemma stored_product_Some:
  "stored_product p = Some row \<Longrightarrow> row = p\<lparr>stock_quantity := numeric_round (stock_quantity p)\<rparr>"
  by (auto simp: stored_product_def numeric_Some split: option.splits)

lemma stored_order_item_Some:
  assumes "stored_order_item l = Some row"
  shows "product_id row = product_id l" "quantity row = numeric_round (quantity l)"
    "unit_price row = numeric_round (unit_price l)"
    "line_discount row = numeric_round (line_discount l)"
    "line_subtotal row = numeric_round (line_subtotal l)"
    "line_total row = numeric_round (line_total l)"
    "0 < quantity row"
  using assms
  by (auto simp: stored_order_item_def numeric_Some split: option.splits if_splits)

lemma those_map_Some:
  "those (map f xs) = Some ys \<Longrightarrow> list_all2 (\<lambda>x y. f x = Some y) xs ys"
  by (induction xs arbitrary: ys) (auto split: option.splits)

lemma stored_order_Some:
  assumes "stored_order ord = Some row"
  shows "row = ord\<lparr>subtotal_amount := numeric_round (subtotal_amount ord),
                   shipping_amount := numeric_round (shipping_amount ord),
                   discount_amount := numeric_round (discount_amount ord),
                   total_amount := numeric_round (total_amount ord),
                   order_items := order_items row\<rparr>"
    and "list_all2 (\<lambda>l r. stored_order_item l = Some r) (order_items ord) (order_items row)"
  using assms
  by (auto simp: stored_order_def numeric_Some split: option.splits dest: those_map_Some)

lemma stored_lines:
  assumes "list_all2 (\<lambda>l r. stored_order_item l = Some r) ls rows"
  shows "map product_id rows = map product_id ls"
    "map quantity rows = map (\<lambda>l. numeric_round (quantity l)) ls"
    "map unit_price rows = map (\<lambda>l. numeric_round (unit_price l)) ls"
    "map line_discount rows = map (\<lambda>l. numeric_round (line_discount l)) ls"
    "map line_subtotal rows = map (\<lambda>l. numeric_round (line_subtotal l)) ls"
    "map line_total rows = map (\<lambda>l. numeric_round (line_total l)) ls"
    "\<forall>r\<in>set rows. 0 < quantity r"
  using assms
  by (induction ls rows rule: list_all2_induct) (auto dest: stored_order_item_Some)

lemma write_products_Some:
  assumes "write_products pids st target = Some written"
  shows "orders written = orders target" "shipments written = shipments target"
    "products written pid =
       (if pid \<in> set pids \<and> products st pid \<noteq> None
        then map_option (\<lambda>p. p\<lparr>stock_quantity := numeric_round (stock_quantity p)\<rparr>)
               (products st pid)
        else products target pid)"
  using assms
  by (induction pids arbitrary: target)
     (auto split: option.splits dest: stored_product_Some)

lemma write_order_Some:
  assumes "write_order oid st target = Some written" and "orders st oid = Some ord"
  shows "\<exists>row. stored_order ord = Some row \<and>
           written = target\<lparr>orders := (orders target)(oid \<mapsto> row)\<rparr>"
  using assms by (auto simp: write_order_def split: option.splits)

lemma create_order_success:
  assumes "create_order db oid order_data = (db', Inr r)"
  shows "\<exists>st row.
          add_items oid (items order_data) 0
                ((pending db)\<lparr>orders := (orders (pending db))(oid \<mapsto> new_order order_data)\<rparr>)
                = (st, Inr (\<Sum>i\<leftarrow>items order_data. quantity i * unit_price i - line_discount i)) \<and>
          stored_order ((new_order order_data)
              \<lparr>order_items := map as_order_item (items order_data),
               subtotal_amount := (\<Sum>i\<leftarrow>items order_data. quantity i * unit_price i - line_discount i),
               total_amount := (\<Sum>i\<leftarrow>items order_data. quantity i * unit_price i - line_discount i)
                  + shipping_amount (new_order order_data) - discount_amount (new_order order_data)\<rparr>)
            = Some row \<and>
          orders (committed db') = (orders (pending db))(oid \<mapsto> row) \<and>
          (\<forall>pid. products (committed db') pid =
             (if pid \<in> product_id ` set (items order_data)
              then map_option (\<lambda>p. p\<lparr>stock_quantity := numeric_round (stock_quantity p)\<rparr>)
                     (products st pid)
              else products st pid)) \<and>
          shipments (committed db') = shipments (pending db) \<and>
          orders (pending db') = (orders (pending db))(oid \<mapsto>
             row\<lparr>order_items := map as_order_item (items order_data)\<rparr>) \<and>
          products (pending db') = products st \<and>
          shipments (pending db') = shipments (pending db) \<and>
          r = Some (row\<lparr>order_items := map as_order_item (items order_data)\<rparr>)"
proof -
  let ?st1 = "(pending db)\<lparr>orders := (orders (pending db))(oid \<mapsto> new_order order_data)\<rparr>"
  let ?sum = "\<Sum>i\<leftarrow>items order_data. quantity i * unit_price i - line_discount i"
  let ?ord = "(new_order order_data)
              \<lparr>order_items := map as_order_item (items order_data),
               subtotal_amount := ?sum,
               total_amount := ?sum
                  + shipping_amount (new_order order_data) - discount_amount (new_order order_data)\<rparr>"
  let ?pids = "map product_id (items order_data)"
  obtain st res where run: "add_items oid (items order_data) 0 ?st1 = (st, res)"
    by (cases "add_items oid (items order_data) 0 ?st1")
  with assms obtain sub where res: "res = Inr sub"
    by (cases res) (auto simp: create_order_def Let_def)
  have sub: "sub = ?sum" using add_items_subtotal [OF run [unfolded res]] by simp
  have ords: "orders st = (orders ?st1)(oid \<mapsto>
      (new_order order_data)\<lparr>order_items := map as_order_item (items order_data)\<rparr>)"
    using add_items_orders [OF run [unfolded res], of "new_order order_data"]
    by (simp add: new_order_def)
  have ships: "shipments st = shipments (pending db)"
    using add_items_shipments [OF run] by simp
  define st' where "st' = update_order_row oid
         (\<lambda>ord. ord\<lparr>subtotal_amount := sub,
                    total_amount := sub + shipping_amount ord - discount_amount ord\<rparr>) st"
  have ords': "orders st' = (orders (pending db))(oid \<mapsto> ?ord)"
    by (simp add: st'_def update_order_row_orders ords sub new_order_def)
  have prods': "products st' = products st" and ships': "shipments st' = shipments (pending db)"
    by (simp_all add: st'_def ships)
  from assms run res obtain target written where
    wo: "write_order oid st' st' = Some target" and
    wp: "write_products ?pids st' target = Some written" and
    db': "db' = refresh_order oid
                  (db\<lparr>pending := ?st1\<rparr>\<lparr>pending := st'\<rparr>\<lparr>committed := written\<rparr>)" and
    r: "r = get_order db' oid"
    by (auto simp: create_order_def Let_def st'_def split: option.splits)
  from write_order_Some [OF wo] ords' obtain row where
    row: "stored_order ?ord = Some row" and
    target: "target = st'\<lparr>orders := (orders st')(oid \<mapsto> row)\<rparr>"
    by auto
  have w_ords: "orders written = (orders (pending db))(oid \<mapsto> row)"
    using write_products_Some(1) [OF wp] by (simp add: target ords')
  have w_ships: "shipments written = shipments (pending db)"
    using write_products_Some(2) [OF wp] by (simp add: target ships')
  have w_prods: "products written pid =
             (if pid \<in> product_id ` set (items order_data)
              then map_option (\<lambda>p. p\<lparr>stock_quantity := numeric_round (stock_quantity p)\<rparr>)
                     (products st pid)
              else products st pid)" for pid
    using write_products_Some(3) [OF wp, of pid] by (auto simp: target prods')
  have c: "committed db' = written"
    by (simp add: db' refresh_order_def split: option.splits)
  have p: "pending db' = update_order_row oid
             (\<lambda>ord. row\<lparr>order_items := order_items ord\<rparr>) st'"
    by (simp add: db' refresh_order_def w_ords)
  have p_ords: "orders (pending db') = (orders (pending db))(oid \<mapsto>
             row\<lparr>order_items := map as_order_item (items order_data)\<rparr>)"
    by (simp add: p update_order_row_orders ords')
  show ?thesis
    using run res sub row w_ords w_prods w_ships p_ords
    by (auto simp: c p prods' ships' r get_order_def)
qed

section \<open>The invariants under each operation\<close>

lemma ordered_quantity_nonneg:
  "\<forall>i\<in>set its. 0 < quantity i \<Longrightarrow> 0 \<le> ordered_quantity pid its"
  by (induction its) auto

lemma add_items_stock_nonneg:
  "stock_nonneg st \<Longrightarrow> add_items oid its sub st = (st', r) \<Longrightarrow> stock_nonneg st'"
proof (induction its arbitrary: sub st)
  case Nil
  then show ?case by simp
next
  case (Cons item rest)
  show ?case
  proof (cases "products st (product_id item)")
    case None
    with Cons.prems show ?thesis by (simp add: add_items_Cons)
  next
    case (Some p)
    show ?thesis
    proof (cases "stock_quantity p < quantity item")
      case True
      with Some Cons.prems show ?thesis by (simp add: add_items_Cons)
    next
      case False
      have "stock_nonneg (item_added oid item p st)"
        using Cons.prems(1) False by (auto simp: stock_nonneg_def item_added_products)
      moreover have "add_items oid rest
          (sub + (quantity item * unit_price item - line_discount item))
          (item_added oid item p st) = (st', r)"
        using Cons.prems(2) Some False by (simp add: add_items_Cons)
      ultimately show ?thesis by (rule Cons.IH)
    qed
  qed
qed

lemma restore_stock_stock_nonneg:
  assumes "stock_nonneg st" and "\<forall>i\<in>set its. 0 < quantity i"
  shows "stock_nonneg (restore_stock its st)"
  unfolding stock_nonneg_def
proof (intro allI impI)
  fix pid p
  assume "products (restore_stock its st) pid = Some p"
  then obtain q where q: "products st pid = Some q"
    and p: "p = q\<lparr>stock_quantity := stock_quantity q + ordered_quantity pid its\<rparr>"
    by (auto simp: restore_stock_products)
  from q assms(1) have "0 \<le> stock_quantity q" by (auto simp: stock_nonneg_def)
  with ordered_quantity_nonneg [OF assms(2), of pid] show "0 \<le> stock_quantity p"
    by (simp add: p)
qed

lemma create_order_failure:
  "create_order db oid order_data = (db', Inl e) \<Longrightarrow>
   committed db' = committed db \<and> pending db' = committed db"
  by (auto simp: create_order_def Let_def rollback_def split: prod.splits sum.splits option.splits)

lemma consistent_update_stock:
  assumes "consistent db"
  shows "consistent (fst (update_stock db pid quantity_change))"
proof (cases "products (pending db) pid")
  case None
  with assms show ?thesis by (simp add: update_stock_def)
next
  case (Some p)
  show ?thesis
  proof (cases "stock_quantity p + quantity_change < 0")
    case True
    with Some assms show ?thesis by (simp add: update_stock_def)
  next
    case False
    show ?thesis
    proof (cases "stored_product (p\<lparr>stock_quantity := stock_quantity p + quantity_change\<rparr>)")
      case None
      with Some False assms show ?thesis by (simp add: update_stock_def)
    next
      case (Some row)
      from stored_product_Some [OF this] False have "0 \<le> stock_quantity row"
        by (simp add: numeric_round_nonneg)
      with Some \<open>products (pending db) pid = Some p\<close> False assms show ?thesis
        by (auto simp: update_stock_def Let_def commit_def consistent_def stock_nonneg_def
            quantities_positive_def)
    qed
  qed
qed

lemma consistent_create_order:
  assumes "consistent db" and "\<forall>i\<in>set (items order_data). 0 < quantity i"
  shows "consistent (fst (create_order db oid order_data))"
proof -
  obtain db' res where run: "create_order db oid order_data = (db', res)"
    by (cases "create_order db oid order_data")
  show ?thesis
  proof (cases res)
    case (Inl e)
    from create_order_failure [OF run [unfolded Inl]] assms(1) show ?thesis
      by (simp add: run consistent_def)
  next
    case (Inr r)
    let ?st1 = "(pending db)\<lparr>orders := (orders (pending db))(oid \<mapsto> new_order order_data)\<rparr>"
    from create_order_success [OF run [unfolded Inr]] obtain st row ord where
      loop: "add_items oid (items order_data) 0 ?st1 =
               (st, Inr (\<Sum>i\<leftarrow>items order_data. quantity i * unit_price i - line_discount i))" and
      row: "stored_order ord = Some row" and
      c_ords: "orders (committed db') = (orders (pending db))(oid \<mapsto> row)" and
      c_prods: "\<And>pid. products (committed db') pid =
             (if pid \<in> product_id ` set (items order_data)
              then map_option (\<lambda>p. p\<lparr>stock_quantity := numeric_round (stock_quantity p)\<rparr>)
                     (products st pid)
              else products st pid)" and
      p_ords: "orders (pending db') = (orders (pending db))(oid \<mapsto>
             row\<lparr>order_items := map as_order_item (items order_data)\<rparr>)" and
      p_prods: "products (pending db') = products st"
      by blast
    have "stock_nonneg ?st1" using assms(1) by (simp add: consistent_def stock_nonneg_def)
    from add_items_stock_nonneg [OF this loop] have st: "stock_nonneg st" .
    then have "stock_nonneg (pending db')"
      by (simp add: stock_nonneg_def p_prods)
    moreover have "stock_nonneg (committed db')"
      using st by (auto simp: stock_nonneg_def c_prods numeric_round_nonneg split: if_splits)
    moreover have "quantities_positive (pending db')"
      using assms by (auto simp: quantities_positive_def p_ords consistent_def as_order_item_def)
    moreover have "quantities_positive (committed db')"
      using assms(1) stored_lines(7) [OF stored_order_Some(2) [OF row]]
      by (auto simp: quantities_positive_def c_ords consistent_def)
    ultimately show ?thesis by (simp add: run consistent_def)
  qed
qed

lemma consistent_cancel_order:
  assumes "consistent db"
  shows "consistent (fst (cancel_order db oid))"
proof (cases "get_order db oid")
  case None
  with assms show ?thesis by (simp add: cancel_order_def)
next
  case (Some ord)
  show ?thesis
  proof (cases "order.status ord \<in> {OrderStatus.CANCELLED, FULFILLED}")
    case True
    with Some assms show ?thesis by (simp add: cancel_order_def)
  next
    case False
    have pos: "\<forall>i\<in>set (order_items ord). 0 < quantity i"
      using assms Some by (auto simp: consistent_def quantities_positive_def get_order_def)
    from assms have "stock_nonneg (pending db)" by (simp add: consistent_def)
    from restore_stock_stock_nonneg [OF this pos]
    have "stock_nonneg (update_order_row oid (\<lambda>ord. ord\<lparr>order.status := OrderStatus.CANCELLED\<rparr>)
            (restore_stock (order_items ord) (pending db)))"
      by (simp add: stock_nonneg_def)
    moreover
    have "quantities_positive (update_order_row oid
            (\<lambda>ord. ord\<lparr>order.status := OrderStatus.CANCELLED\<rparr>)
            (restore_stock (order_items ord) (pending db)))"
      using assms
      by (auto simp: quantities_positive_def consistent_def update_order_row_orders
          split: option.splits if_splits)
    ultimately show ?thesis
      using Some False by (simp add: cancel_order_def Let_def commit_def consistent_def)
  qed
qed

lemma consistent_delete_order:
  assumes "consistent db"
  shows "consistent (fst (delete_order db oid))"
proof (cases "get_order db oid")
  case None
  with assms show ?thesis by (simp add: delete_order_def)
next
  case (Some ord)
  show ?thesis
  proof (cases "order.status ord = DRAFT")
    case False
    with Some assms show ?thesis by (simp add: delete_order_def)
  next
    case True
    let ?st = "restore_stock (order_items ord) (pending db)"
    have pos: "\<forall>i\<in>set (order_items ord). 0 < quantity i"
      using assms Some by (auto simp: consistent_def quantities_positive_def get_order_def)
    from assms have "stock_nonneg (pending db)" by (simp add: consistent_def)
    from restore_stock_stock_nonneg [OF this pos]
    have "stock_nonneg (?st\<lparr>orders := (orders ?st)(oid := None)\<rparr>)"
      by (simp add: stock_nonneg_def)
    moreover
    have "quantities_positive (?st\<lparr>orders := (orders ?st)(oid := None)\<rparr>)"
      using assms
      by (auto simp: quantities_positive_def consistent_def split: if_splits)
    ultimately show ?thesis
      using Some True by (simp add: delete_order_def Let_def commit_def consistent_def)
  qed
qed

section \<open>The row a status update writes\<close>

lemma update_shipment_status_row:
  assumes "shipments (pending db) sid = Some sh"
  shows "update_shipment_status db sid st flag now =
     (\<lparr>committed = (pending db)\<lparr>shipments := (shipments (pending db))(sid \<mapsto>
          sh\<lparr>shipment.status := st,
             shipped_at := (if flag \<and> st = SHIPPED \<and> shipped_at sh = None
                            then Some now else shipped_at sh),
             delivered_at := (if flag \<and> st = DELIVERED \<and> delivered_at sh = None
                              then Some now else delivered_at sh)\<rparr>)\<rparr>,
       pending = (pending db)\<lparr>shipments := (shipments (pending db))(sid \<mapsto>
          sh\<lparr>shipment.status := st,
             shipped_at := (if flag \<and> st = SHIPPED \<and> shipped_at sh = None
                            then Some now else shipped_at sh),
             delivered_at := (if flag \<and> st = DELIVERED \<and> delivered_at sh = None
                              then Some now else delivered_at sh)\<rparr>)\<rparr>\<rparr>,
      Some (sh\<lparr>shipment.status := st,
             shipped_at := (if flag \<and> st = SHIPPED \<and> shipped_at sh = None
                            then Some now else shipped_at sh),
             delivered_at := (if flag \<and> st = DELIVERED \<and> delivered_at sh = None
                              then Some now else delivered_at sh)\<rparr>))"
  using assms by (auto simp: update_shipment_status_def Let_def commit_def)


text \<open>The equations that compute \<^verbatim>\<open>create_order\<close> on a given request.\<close>

lemmas create_order_eval =
  create_order_def new_order_def add_items.simps Let_def update_order_row_def
  write_order_def stored_order_def stored_order_item_def stored_product_def
  refresh_order_def get_order_def rollback_def numeric_def numeric_round_def
  floor_rat_numeral

section \<open>Order creation\<close>






text \<open>
  C3. The unit price stored on an order line is the one of the request: the product is
  read, but its price is never compared with the request's. Here the product costs
  10.00 the unit, the request says 1.00, and the order is created with a line at 1.00.
\<close>

theorem create_order_unit_price_from_request:
  "map_option (map unit_price \<circ> order_items)
     (orders (committed (fst (create_order demo_db 7 (demo_request 2 1)))) 7) = Some [1] \<and>
   map_option price_per_unit
     (products (committed (fst (create_order demo_db 7 (demo_request 2 1)))) 1) = Some 10 \<and>
   map_option total_amount
     (orders (committed (fst (create_order demo_db 7 (demo_request 2 1)))) 7) = Some (33/2)"
  by (simp add: create_order_eval demo_request_def demo_db_def demo_store_def)

text \<open>
  C4, as stated, fails for a quantity with more than two decimal places: with 5 units
  in stock, an order for 0.005 units leaves 4.995, which the stock column holds as
  5.00, and its line holds the quantity 0.01; \<^verbatim>\<open>cancel_order\<close>, in the session of
  the next request, adds the stored quantity and commits 5.01.
\<close>

theorem create_then_cancel_rounded_quantity:
  "map_option stock_quantity (products (pending demo_db) 1) = Some 5 \<and>
   \<not> isl (snd (create_order demo_db 7 (demo_request (1 / 200) 100))) \<and>
   map_option stock_quantity
     (products (committed (fst (create_order demo_db 7 (demo_request (1 / 200) 100)))) 1) =
     Some 5 \<and>
   map_option stock_quantity
     (products (committed (fst (cancel_order
        (get_async_db (committed (fst (create_order demo_db 7 (demo_request (1 / 200) 100)))))
        7))) 1) = Some (501 / 100)"
  by (simp add: create_order_eval cancel_order_def get_async_db_def commit_def
      demo_request_def demo_db_def demo_store_def)

text \<open>
  C4, amended. Let the quantities of the request and the stocks of the products it
  names have at most two decimal places. After a successful \<^verbatim>\<open>create_order\<close>, every
  product's stock is its stock before the call less the quantity the request asks of
  it; \<^verbatim>\<open>cancel_order\<close> on the new order, in the session of a later request, then
  succeeds, returns the order with status \<^verbatim>\<open>CANCELLED\<close>, and commits a product
  table equal to the one before the creation.
\<close>

theorem create_then_cancel_conserves_stock:
  assumes "create_order db oid order_data = (db1, Inr r)"
    and "\<forall>i\<in>set (items order_data). two_places (quantity i)"
    and "\<forall>i\<in>set (items order_data). \<forall>p.
           products (pending db) (product_id i) = Some p \<longrightarrow> two_places (stock_quantity p)"
  shows "products (committed (fst (cancel_order (get_async_db (committed db1)) oid))) =
           products (pending db) \<and>
         (\<forall>pid. products (committed db1) pid =
            map_option (\<lambda>p. p\<lparr>stock_quantity :=
                                stock_quantity p - ordered_quantity pid (items order_data)\<rparr>)
              (products (pending db) pid)) \<and>
         (\<exists>ord. snd (cancel_order (get_async_db (committed db1)) oid) = Inr (Some ord) \<and>
                order.status ord = OrderStatus.CANCELLED)"
proof -
  let ?sum = "\<Sum>i\<leftarrow>items order_data. quantity i * unit_price i - line_discount i"
  let ?ord = "(new_order order_data)
              \<lparr>order_items := map as_order_item (items order_data),
               subtotal_amount := ?sum,
               total_amount := ?sum
                  + shipping_amount (new_order order_data) - discount_amount (new_order order_data)\<rparr>"
  from create_order_success [OF assms(1)] obtain st row where
    run: "add_items oid (items order_data) 0
            ((pending db)\<lparr>orders := (orders (pending db))(oid \<mapsto> new_order order_data)\<rparr>)
          = (st, Inr ?sum)" and
    row: "stored_order ?ord = Some row" and
    ords: "orders (committed db1) = (orders (pending db))(oid \<mapsto> row)" and
    prods: "\<And>pid. products (committed db1) pid =
             (if pid \<in> product_id ` set (items order_data)
              then map_option (\<lambda>p. p\<lparr>stock_quantity := numeric_round (stock_quantity p)\<rparr>)
                     (products st pid)
              else products st pid)"
    by blast
  have loop: "products st pid =
            map_option (\<lambda>p. p\<lparr>stock_quantity :=
                                stock_quantity p - ordered_quantity pid (items order_data)\<rparr>)
              (products (pending db) pid)" for pid
    using add_items_products [OF run, of pid] by simp
  have dec: "products (committed db1) pid =
            map_option (\<lambda>p. p\<lparr>stock_quantity :=
                                stock_quantity p - ordered_quantity pid (items order_data)\<rparr>)
              (products (pending db) pid)" for pid
  proof (cases "pid \<in> product_id ` set (items order_data)")
    case False
    then show ?thesis by (simp add: prods loop)
  next
    case True
    show ?thesis
    proof (cases "products (pending db) pid")
      case None
      then show ?thesis by (simp add: prods loop)
    next
      case (Some p)
      with True assms(3) have "two_places (stock_quantity p)" by auto
      then have "two_places (stock_quantity p - ordered_quantity pid (items order_data))"
        using two_places_ordered_quantity [OF assms(2), of pid] by (rule two_places_diff)
      with Some True show ?thesis
        by (simp add: prods loop two_places_def)
    qed
  qed
  note lines = stored_lines [OF stored_order_Some(2) [OF row]]
  have same: "ordered_quantity pid (order_items row) =
              ordered_quantity pid (items order_data)" for pid
  proof (rule ordered_quantity_cong)
    show "map product_id (order_items row) = map product_id (items order_data)"
      using lines(1) by (simp add: comp_def as_order_item_def)
    show "map quantity (order_items row) = map quantity (items order_data)"
      using lines(2) assms(2) by (simp add: comp_def as_order_item_def two_places_def)
  qed
  have status: "order.status row = DRAFT"
    by (subst stored_order_Some(1) [OF row]) (simp add: new_order_def)
  let ?db2 = "get_async_db (committed db1)"
  have got: "get_order ?db2 oid = Some row"
    by (simp add: get_order_def get_async_db_def ords)
  let ?st2 = "restore_stock (order_items row) (pending ?db2)"
  have cancel: "cancel_order ?db2 oid =
      (let st' = update_order_row oid (\<lambda>ord. ord\<lparr>order.status := OrderStatus.CANCELLED\<rparr>) ?st2;
           db' = commit (?db2\<lparr>pending := st'\<rparr>)
       in (db', Inr (get_order db' oid)))"
    using got status by (simp add: cancel_order_def)
  have restored: "products ?st2 pid = products (pending db) pid" for pid
    by (cases "products (pending db) pid")
       (simp_all add: restore_stock_products get_async_db_def dec same)
  have "products (committed (fst (cancel_order ?db2 oid))) = products ?st2"
    by (simp add: cancel Let_def commit_def)
  moreover have "products ?st2 = products (pending db)" using restored by (rule ext)
  moreover have "orders (pending ?db2) oid = Some row"
    by (simp add: get_async_db_def ords)
  then have "\<exists>ord. snd (cancel_order ?db2 oid) = Inr (Some ord) \<and>
                order.status ord = OrderStatus.CANCELLED"
    by (simp add: cancel Let_def commit_def get_order_def update_order_row_orders)
  ultimately show ?thesis using dec by simp
qed

theorem create_then_cancel_conserves_stock_witness:
  "map_option stock_quantity
     (products (committed (fst (create_order demo_db 7 (demo_request 3 10)))) 1) = Some 2 \<and>
   map_option stock_quantity
     (products (committed (fst (cancel_order
        (get_async_db (committed (fst (create_order demo_db 7 (demo_request 3 10))))) 7))) 1) =
     Some 5"
proof -
  obtain db1 r0 where run: "create_order demo_db 7 (demo_request 3 10) = (db1, r0)"
    by (cases "create_order demo_db 7 (demo_request 3 10)")
  then obtain r where r: "r0 = Inr r"
    by (cases r0) (auto simp: create_order_eval demo_request_def demo_db_def demo_store_def)
  have q: "\<forall>i\<in>set (items (demo_request 3 10)). two_places (quantity i)"
    by (simp add: demo_request_def two_places_def numeric_round_def floor_rat_numeral)
  have s: "\<forall>i\<in>set (items (demo_request 3 10)). \<forall>p.
           products (pending demo_db) (product_id i) = Some p \<longrightarrow> two_places (stock_quantity p)"
    by (auto simp: demo_request_def demo_db_def demo_store_def two_places_def numeric_round_def
        floor_rat_numeral)
  from create_then_cancel_conserves_stock [OF run [unfolded r] q s] run show ?thesis
    by (auto simp: demo_request_def demo_db_def demo_store_def)
qed

section \<open>Cancellation and deletion\<close>





section \<open>Stock is never negative\<close>

text \<open>
  C9. From a consistent session, \<^verbatim>\<open>update_stock\<close>, \<^verbatim>\<open>create_order\<close> (for a
  request whose quantities are positive, as the request model demands),
  \<^verbatim>\<open>cancel_order\<close> and \<^verbatim>\<open>delete_order\<close> each leave a consistent session,
  whether they succeed or raise: no product's stock is negative afterwards. And
  \<^verbatim>\<open>update_stock\<close> raises the insufficient-stock error, changing nothing, whenever
  the stock plus the change would be negative.
\<close>

theorem stock_quantity_never_negative:
  assumes "consistent db"
  shows "consistent (fst (update_stock db pid quantity_change)) \<and>
         (\<forall>p. products (pending db) pid = Some p \<and> stock_quantity p + quantity_change < 0 \<longrightarrow>
              update_stock db pid quantity_change = (db, Inl InsufficientStock)) \<and>
         ((\<forall>i\<in>set (items order_data). 0 < quantity i) \<longrightarrow>
              consistent (fst (create_order db oid order_data))) \<and>
         consistent (fst (cancel_order db oid')) \<and>
         consistent (fst (delete_order db oid'))"
  using consistent_update_stock [OF assms] consistent_create_order [OF assms]
    consistent_cancel_order [OF assms] consistent_delete_order [OF assms]
  by (auto simp: update_stock_def)

theorem stock_quantity_never_negative_witness:
  "update_stock (demo_db_with (demo_order PAID)) 1 (- 6) =
     (demo_db_with (demo_order PAID), Inl InsufficientStock) \<and>
   map_option stock_quantity
     (products (committed (fst (update_stock (demo_db_with (demo_order PAID)) 1 (- 5)))) 1) =
     Some 0 \<and>
   stock_nonneg (committed (fst (update_stock (demo_db_with (demo_order PAID)) 1 (- 5)))) \<and>
   stock_nonneg (committed (fst (create_order (demo_db_with (demo_order PAID)) 8 (demo_request 5 10)))) \<and>
   stock_nonneg (committed (fst (cancel_order (demo_db_with (demo_order PAID)) 7)))"
proof -
  have c: "consistent (demo_db_with (demo_order PAID))"
    by (simp add: consistent_def stock_nonneg_def quantities_positive_def demo_db_with_def
        demo_order_def demo_store_def)
  have v: "\<forall>i\<in>set (items (demo_request 5 10)). 0 < quantity i"
    by (simp add: demo_request_def)
  have p: "products (pending (demo_db_with (demo_order PAID))) 1 =
             Some \<lparr>name = ''tomatoes'', price_per_unit = 10, stock_quantity = 5\<rparr>"
    by (simp add: demo_db_with_def demo_store_def)
  from stock_quantity_never_negative [OF c, of 1 "- 6" "demo_request 5 10" 8 7]
       stock_quantity_never_negative [OF c, of 1 "- 5" "demo_request 5 10" 8 7] v p
  show ?thesis
    by (simp add: consistent_def)
       (simp add: update_stock_def stored_product_def numeric_def numeric_round_def Let_def
          commit_def demo_db_with_def demo_store_def)
qed

section \<open>Payments\<close>

text \<open>
  C7. \<^verbatim>\<open>create_paypal_payment\<close> checks in this order: a missing order is an
  error; an order whose status is neither \<^verbatim>\<open>DRAFT\<close> nor \<^verbatim>\<open>PENDING_PAYMENT\<close> is an
  invalid-state error; an order whose payment status is \<^verbatim>\<open>CAPTURED\<close> is an
  already-paid error; a failure of the provider is an error carrying the provider's
  message. Every error leaves the session as it was. On the provider's success the
  order is committed with \<^verbatim>\<open>payment_provider = "PAYPAL"\<close>, the provider's payment
  id as \<^verbatim>\<open>payment_reference\<close>, \<^verbatim>\<open>payment_status = PENDING\<close> and
  \<^verbatim>\<open>status = PENDING_PAYMENT\<close>, and nothing else is changed.
\<close>

theorem create_paypal_payment_guards:
  "(orders (pending db) oid = None \<longrightarrow>
      create_paypal_payment provider db oid return_url cancel_url = (db, Inl OrderNotFound)) \<and>
   (\<forall>ord. orders (pending db) oid = Some ord \<longrightarrow>
      (order.status ord \<notin> {DRAFT, PENDING_PAYMENT} \<longrightarrow>
         create_paypal_payment provider db oid return_url cancel_url =
           (db, Inl (OrderCannotBePaid (order.status ord)))) \<and>
      (order.status ord \<in> {DRAFT, PENDING_PAYMENT} \<and> payment_status ord = CAPTURED \<longrightarrow>
         create_paypal_payment provider db oid return_url cancel_url =
           (db, Inl OrderAlreadyPaid)) \<and>
      (order.status ord \<in> {DRAFT, PENDING_PAYMENT} \<and> payment_status ord \<noteq> CAPTURED \<longrightarrow>
         (\<forall>e. provider (total_amount ord) (order.currency ord) return_url cancel_url oid =
                PaymentError e \<longrightarrow>
              create_paypal_payment provider db oid return_url cancel_url =
                (db, Inl (PaymentCreationFailed e))) \<and>
         (\<forall>pay_id url.
              provider (total_amount ord) (order.currency ord) return_url cancel_url oid =
                PaymentCreated pay_id url \<longrightarrow>
              create_paypal_payment provider db oid return_url cancel_url =
                (\<lparr>committed = (pending db)\<lparr>orders := (orders (pending db))(oid \<mapsto>
                     ord\<lparr>payment_provider := Some ''PAYPAL'',
                         payment_reference := Some pay_id,
                         payment_status := PaymentStatus.PENDING,
                         order.status := PENDING_PAYMENT\<rparr>)\<rparr>,
                   pending = (pending db)\<lparr>orders := (orders (pending db))(oid \<mapsto>
                     ord\<lparr>payment_provider := Some ''PAYPAL'',
                         payment_reference := Some pay_id,
                         payment_status := PaymentStatus.PENDING,
                         order.status := PENDING_PAYMENT\<rparr>)\<rparr>\<rparr>,
                 Inr \<lparr>payment_created.order_id = oid, payment_id = pay_id,
                      approval_url = url, amount = total_amount ord,
                      payment_created.currency = order.currency ord\<rparr>)))) \<and>
   (isl (snd (create_paypal_payment provider db oid return_url cancel_url)) \<longrightarrow>
      fst (create_paypal_payment provider db oid return_url cancel_url) = db)"
  by (auto simp: create_paypal_payment_def Let_def commit_def update_order_row_def
      split: option.splits create_payment_result.splits)

theorem create_paypal_payment_guards_witness:
  "create_paypal_payment demo_provider_up demo_db 7 None None = (demo_db, Inl OrderNotFound) \<and>
   create_paypal_payment demo_provider_up (demo_db_with (demo_order PAID)) 7 None None =
     (demo_db_with (demo_order PAID), Inl (OrderCannotBePaid PAID)) \<and>
   create_paypal_payment demo_provider_up
       (demo_db_with ((demo_order DRAFT)\<lparr>payment_status := CAPTURED\<rparr>)) 7 None None =
     (demo_db_with ((demo_order DRAFT)\<lparr>payment_status := CAPTURED\<rparr>), Inl OrderAlreadyPaid) \<and>
   create_paypal_payment demo_provider_down (demo_db_with (demo_order DRAFT)) 7 None None =
     (demo_db_with (demo_order DRAFT), Inl (PaymentCreationFailed ''timeout'')) \<and>
   fst (create_paypal_payment demo_provider_up (demo_db_with (demo_order DRAFT)) 7 None None) =
     demo_db_with ((demo_order DRAFT)
       \<lparr>payment_provider := Some ''PAYPAL'', payment_reference := Some ''PAY-1'',
        payment_status := PaymentStatus.PENDING, order.status := PENDING_PAYMENT\<rparr>)"
proof -
  have g: "orders (pending (demo_db_with ord)) 7 = Some ord" for ord
    by (simp add: demo_db_with_def)
  have "orders (pending demo_db) 7 = None"
    by (simp add: demo_db_def demo_store_def)
  with create_paypal_payment_guards [of demo_db 7 demo_provider_up None None]
  have a: "create_paypal_payment demo_provider_up demo_db 7 None None =
             (demo_db, Inl OrderNotFound)"
    by blast
  have "order.status (demo_order PAID) \<notin> {DRAFT, PENDING_PAYMENT}"
    by (simp add: demo_order_def)
  with create_paypal_payment_guards
         [of "demo_db_with (demo_order PAID)" 7 demo_provider_up None None] g
  have b: "create_paypal_payment demo_provider_up (demo_db_with (demo_order PAID)) 7 None None =
     (demo_db_with (demo_order PAID), Inl (OrderCannotBePaid (order.status (demo_order PAID))))"
    by blast
  let ?paid = "(demo_order DRAFT)\<lparr>payment_status := CAPTURED\<rparr>"
  have "order.status ?paid \<in> {DRAFT, PENDING_PAYMENT} \<and> payment_status ?paid = CAPTURED"
    by (simp add: demo_order_def)
  with create_paypal_payment_guards [of "demo_db_with ?paid" 7 demo_provider_up None None] g
  have c: "create_paypal_payment demo_provider_up (demo_db_with ?paid) 7 None None =
     (demo_db_with ?paid, Inl OrderAlreadyPaid)"
    by blast
  have unpaid: "order.status (demo_order DRAFT) \<in> {DRAFT, PENDING_PAYMENT} \<and>
      payment_status (demo_order DRAFT) \<noteq> CAPTURED"
    by (simp add: demo_order_def)
  have "demo_provider_down (total_amount (demo_order DRAFT)) (order.currency (demo_order DRAFT))
          None None 7 = PaymentError ''timeout''"
    by (simp add: demo_provider_down_def)
  with create_paypal_payment_guards
         [of "demo_db_with (demo_order DRAFT)" 7 demo_provider_down None None] g unpaid
  have d: "create_paypal_payment demo_provider_down (demo_db_with (demo_order DRAFT)) 7 None None =
     (demo_db_with (demo_order DRAFT), Inl (PaymentCreationFailed ''timeout''))"
    by blast
  have "demo_provider_up (total_amount (demo_order DRAFT)) (order.currency (demo_order DRAFT))
          None None 7 = PaymentCreated ''PAY-1'' (Some ''https://paypal.example/approve'')"
    by (simp add: demo_provider_up_def)
  with create_paypal_payment_guards
         [of "demo_db_with (demo_order DRAFT)" 7 demo_provider_up None None] g unpaid
  have e: "fst (create_paypal_payment demo_provider_up (demo_db_with (demo_order DRAFT)) 7 None None) =
      \<lparr>committed = (pending (demo_db_with (demo_order DRAFT)))\<lparr>orders :=
           (orders (pending (demo_db_with (demo_order DRAFT))))(7 \<mapsto>
                     (demo_order DRAFT)\<lparr>payment_provider := Some ''PAYPAL'',
                         payment_reference := Some ''PAY-1'',
                         payment_status := PaymentStatus.PENDING,
                         order.status := PENDING_PAYMENT\<rparr>)\<rparr>,
       pending = (pending (demo_db_with (demo_order DRAFT)))\<lparr>orders :=
           (orders (pending (demo_db_with (demo_order DRAFT))))(7 \<mapsto>
                     (demo_order DRAFT)\<lparr>payment_provider := Some ''PAYPAL'',
                         payment_reference := Some ''PAY-1'',
                         payment_status := PaymentStatus.PENDING,
                         order.status := PENDING_PAYMENT\<rparr>)\<rparr>\<rparr>"
    by (metis fst_conv)
  show ?thesis
    using a b c d by (simp add: e) (simp add: demo_db_with_def demo_order_def)
qed

text \<open>
  C8, as stated, fails for a refund amount of zero, which the request model admits
  (\<^verbatim>\<open>ge=0\<close>): the order was captured for 30.00, the amount 0 is strictly less,
  and the payment status becomes \<^verbatim>\<open>REFUNDED\<close>.
\<close>

theorem refund_zero_amount_marks_refunded:
  "total_amount demo_paid_order = 30 \<and> (0::decimal) < 30 \<and>
   map_option payment_status
     (orders (committed (fst (refund_paypal_payment demo_refund_provider
        (demo_db_with demo_paid_order) 7 (Some 0)))) 7) = Some REFUNDED"
  by (simp add: refund_paypal_payment_def demo_refund_provider_def demo_db_with_def
      demo_paid_order_def demo_order_def Let_def commit_def update_order_row_def)

text \<open>
  C8, amended. \<^verbatim>\<open>refund_paypal_payment\<close> fails, changing nothing, when the order is
  missing, when its \<^verbatim>\<open>payment_provider\<close> is not \<^verbatim>\<open>"PAYPAL"\<close>, when its payment
  status is not \<^verbatim>\<open>CAPTURED\<close>, when it has no payment reference, and when the
  provider's refund fails. On the provider's success it commits
  \<^verbatim>\<open>payment_status = REFUNDED\<close> when the amount is omitted, zero or equal to
  \<^verbatim>\<open>total_amount\<close>, and \<^verbatim>\<open>payment_status = CAPTURED\<close> when the amount is not zero
  and strictly less than \<^verbatim>\<open>total_amount\<close>.
\<close>

theorem refund_paypal_payment_status:
  "(orders (pending db) oid = None \<longrightarrow>
      refund_paypal_payment provider db oid amount' = (db, Inl OrderNotFound)) \<and>
   (\<forall>ord. orders (pending db) oid = Some ord \<longrightarrow>
      (payment_provider ord \<noteq> Some ''PAYPAL'' \<longrightarrow>
         refund_paypal_payment provider db oid amount' = (db, Inl NotPaidWithPayPal)) \<and>
      (payment_provider ord = Some ''PAYPAL'' \<and> payment_status ord \<noteq> CAPTURED \<longrightarrow>
         refund_paypal_payment provider db oid amount' = (db, Inl PaymentNotCaptured)) \<and>
      (payment_provider ord = Some ''PAYPAL'' \<and> payment_status ord = CAPTURED \<and>
       (payment_reference ord = None \<or> payment_reference ord = Some []) \<longrightarrow>
         refund_paypal_payment provider db oid amount' = (db, Inl NoTransactionReference)) \<and>
      (\<forall>reference.
         payment_provider ord = Some ''PAYPAL'' \<and> payment_status ord = CAPTURED \<and>
         payment_reference ord = Some reference \<and> reference \<noteq> [] \<longrightarrow>
         (\<forall>e. provider reference amount' = RefundError e \<longrightarrow>
            refund_paypal_payment provider db oid amount' = (db, Inl (RefundFailed e))) \<and>
         (\<forall>ref_id ref_state. provider reference amount' = RefundCreated ref_id ref_state \<longrightarrow>
            snd (refund_paypal_payment provider db oid amount') =
              Inr \<lparr>payment_refunded.order_id = oid, refund_id = ref_id,
                   refund_state = ref_state,
                   refund_amount =
                     (case amount' of
                        None \<Rightarrow> total_amount ord
                      | Some a \<Rightarrow> if a \<noteq> 0 then a else total_amount ord),
                   payment_refunded.currency = order.currency ord\<rparr> \<and>
            (amount' = None \<or> amount' = Some 0 \<or> amount' = Some (total_amount ord) \<longrightarrow>
               orders (committed (fst (refund_paypal_payment provider db oid amount'))) =
                 (orders (pending db))(oid \<mapsto> ord\<lparr>payment_status := REFUNDED\<rparr>)) \<and>
            (\<forall>a. amount' = Some a \<and> a \<noteq> 0 \<and> a < total_amount ord \<longrightarrow>
               orders (committed (fst (refund_paypal_payment provider db oid amount'))) =
                 (orders (pending db))(oid \<mapsto> ord\<lparr>payment_status := CAPTURED\<rparr>)))))"
  by (auto simp: refund_paypal_payment_def Let_def commit_def update_order_row_def
      split: option.splits refund_payment_result.splits)

theorem refund_paypal_payment_status_witness:
  "refund_paypal_payment demo_refund_provider (demo_db_with (demo_order PAID)) 7 None =
     (demo_db_with (demo_order PAID), Inl NotPaidWithPayPal) \<and>
   map_option payment_status
     (orders (committed (fst (refund_paypal_payment demo_refund_provider
        (demo_db_with demo_paid_order) 7 (Some 30)))) 7) = Some REFUNDED \<and>
   map_option payment_status
     (orders (committed (fst (refund_paypal_payment demo_refund_provider
        (demo_db_with demo_paid_order) 7 (Some 10)))) 7) = Some CAPTURED"
proof -
  have g: "orders (pending (demo_db_with ord)) 7 = Some ord" for ord
    by (simp add: demo_db_with_def)
  have "payment_provider (demo_order PAID) \<noteq> Some ''PAYPAL''"
    by (simp add: demo_order_def)
  with refund_paypal_payment_status
         [of "demo_db_with (demo_order PAID)" 7 demo_refund_provider None] g
  have a: "refund_paypal_payment demo_refund_provider (demo_db_with (demo_order PAID)) 7 None =
     (demo_db_with (demo_order PAID), Inl NotPaidWithPayPal)"
    by blast
  have paid: "payment_provider demo_paid_order = Some ''PAYPAL'' \<and>
      payment_status demo_paid_order = CAPTURED \<and>
      payment_reference demo_paid_order = Some ''SALE-1'' \<and> ''SALE-1'' \<noteq> []"
    by (simp add: demo_paid_order_def demo_order_def)
  have ok: "demo_refund_provider ''SALE-1'' x = RefundCreated ''REF-1'' ''completed''" for x
    by (simp add: demo_refund_provider_def)
  have full: "Some (30::decimal) = Some (total_amount demo_paid_order)"
    by (simp add: demo_paid_order_def demo_order_def)
  have part: "(10::decimal) \<noteq> 0 \<and> 10 < total_amount demo_paid_order"
    by (simp add: demo_paid_order_def demo_order_def)
  from refund_paypal_payment_status
         [of "demo_db_with demo_paid_order" 7 demo_refund_provider "Some 30"] g paid ok full
  have b: "orders (committed (fst (refund_paypal_payment demo_refund_provider
        (demo_db_with demo_paid_order) 7 (Some 30)))) =
      (orders (pending (demo_db_with demo_paid_order)))(7 \<mapsto>
         demo_paid_order\<lparr>payment_status := REFUNDED\<rparr>)"
    by blast
  from refund_paypal_payment_status
         [of "demo_db_with demo_paid_order" 7 demo_refund_provider "Some 10"] g paid ok part
  have c: "orders (committed (fst (refund_paypal_payment demo_refund_provider
        (demo_db_with demo_paid_order) 7 (Some 10)))) =
      (orders (pending (demo_db_with demo_paid_order)))(7 \<mapsto>
         demo_paid_order\<lparr>payment_status := CAPTURED\<rparr>)"
    by blast
  show ?thesis using a by (simp add: b c)
qed

section \<open>Shipment timestamps\<close>

text \<open>
  C10. For a shipment that exists, \<^verbatim>\<open>update_shipment_status\<close> sets
  \<^verbatim>\<open>shipped_at\<close> to the current time exactly when timestamps are updated, the new
  status is \<^verbatim>\<open>SHIPPED\<close> and \<^verbatim>\<open>shipped_at\<close> is not set, and leaves it as it is
  otherwise; likewise \<^verbatim>\<open>delivered_at\<close> and \<^verbatim>\<open>DELIVERED\<close>. A timestamp that is
  set is kept by any later call, and a second call with \<^verbatim>\<open>SHIPPED\<close> (or with
  \<^verbatim>\<open>DELIVERED\<close>) leaves \<^verbatim>\<open>shipped_at\<close> (or \<^verbatim>\<open>delivered_at\<close>) as the first
  call left it.
\<close>

theorem update_shipment_status_timestamps_set_once:
  assumes "shipments (pending db) sid = Some sh"
  shows "map_option shipped_at
           (shipments (committed (fst (update_shipment_status db sid st flag now))) sid) =
         Some (if flag \<and> st = SHIPPED \<and> shipped_at sh = None
               then Some now else shipped_at sh) \<and>
         map_option delivered_at
           (shipments (committed (fst (update_shipment_status db sid st flag now))) sid) =
         Some (if flag \<and> st = DELIVERED \<and> delivered_at sh = None
               then Some now else delivered_at sh) \<and>
         map_option shipped_at
           (shipments (committed (fst (update_shipment_status
              (fst (update_shipment_status db sid SHIPPED True now)) sid SHIPPED flag' now'))) sid) =
         map_option shipped_at
           (shipments (committed (fst (update_shipment_status db sid SHIPPED True now))) sid) \<and>
         map_option delivered_at
           (shipments (committed (fst (update_shipment_status
              (fst (update_shipment_status db sid DELIVERED True now)) sid DELIVERED flag' now'))) sid) =
         map_option delivered_at
           (shipments (committed (fst (update_shipment_status db sid DELIVERED True now))) sid) \<and>
         (\<forall>t. shipped_at sh = Some t \<longrightarrow>
            map_option shipped_at
              (shipments (committed (fst (update_shipment_status db sid st flag now))) sid) =
            Some (Some t)) \<and>
         (\<forall>t. delivered_at sh = Some t \<longrightarrow>
            map_option delivered_at
              (shipments (committed (fst (update_shipment_status db sid st flag now))) sid) =
            Some (Some t))"
proof -
  note first = update_shipment_status_row [OF assms]
  define db_s where "db_s = fst (update_shipment_status db sid SHIPPED True now)"
  define db_d where "db_d = fst (update_shipment_status db sid DELIVERED True now)"
  have s1: "shipments (pending db_s) sid =
      Some (sh\<lparr>shipment.status := SHIPPED,
               shipped_at := (if shipped_at sh = None then Some now else shipped_at sh)\<rparr>)"
    and s2: "map_option shipped_at (shipments (committed db_s) sid) =
      Some (if shipped_at sh = None then Some now else shipped_at sh)"
    by (simp_all add: db_s_def first)
  have d1: "shipments (pending db_d) sid =
      Some (sh\<lparr>shipment.status := DELIVERED,
               delivered_at := (if delivered_at sh = None then Some now else delivered_at sh)\<rparr>)"
    and d2: "map_option delivered_at (shipments (committed db_d) sid) =
      Some (if delivered_at sh = None then Some now else delivered_at sh)"
    by (simp_all add: db_d_def first)
  have again_s: "map_option shipped_at
          (shipments (committed (fst (update_shipment_status db_s sid SHIPPED flag' now'))) sid) =
        map_option shipped_at (shipments (committed db_s) sid)"
    by (simp add: update_shipment_status_row [OF s1] s2)
  have again_d: "map_option delivered_at
          (shipments (committed (fst (update_shipment_status db_d sid DELIVERED flag' now'))) sid) =
        map_option delivered_at (shipments (committed db_d) sid)"
    by (simp add: update_shipment_status_row [OF d1] d2)
  have once_s: "map_option shipped_at
           (shipments (committed (fst (update_shipment_status db sid st flag now))) sid) =
         Some (if flag \<and> st = SHIPPED \<and> shipped_at sh = None
               then Some now else shipped_at sh)"
    and once_d: "map_option delivered_at
           (shipments (committed (fst (update_shipment_status db sid st flag now))) sid) =
         Some (if flag \<and> st = DELIVERED \<and> delivered_at sh = None
               then Some now else delivered_at sh)"
    by (simp_all add: first)
  have kept_s: "\<forall>t. shipped_at sh = Some t \<longrightarrow>
            map_option shipped_at
              (shipments (committed (fst (update_shipment_status db sid st flag now))) sid) =
            Some (Some t)"
    and kept_d: "\<forall>t. delivered_at sh = Some t \<longrightarrow>
            map_option delivered_at
              (shipments (committed (fst (update_shipment_status db sid st flag now))) sid) =
            Some (Some t)"
    by (simp_all add: first)
  from once_s once_d again_s [unfolded db_s_def] again_d [unfolded db_d_def] kept_s kept_d
  show ?thesis by (intro conjI)
qed

theorem update_shipment_status_timestamps_set_once_witness:
  "map_option shipped_at
     (shipments (committed (fst (update_shipment_status demo_shipping_db 9 SHIPPED True 1000))) 9) =
     Some (Some 1000) \<and>
   map_option shipped_at
     (shipments (committed (fst (update_shipment_status
        (fst (update_shipment_status demo_shipping_db 9 SHIPPED True 1000)) 9 SHIPPED True 2000))) 9) =
     Some (Some 1000)"
proof -
  have g: "shipments (pending demo_shipping_db) 9 = Some demo_shipment"
    by (simp add: demo_shipping_db_def)
  from update_shipment_status_timestamps_set_once [OF g, of SHIPPED True 1000 True 2000]
  show ?thesis by (simp add: demo_shipment_def)
qed

end
